theory Spec2Isabelle
  imports Main "HOL-Library.Word"
begin

unbundle bit_operations_syntax

section \<open>Pyrrhic: the move and probe-result codecs of tbprobe.h and api.h\<close>

text \<open>
  The headers are C preprocessor macros over fixed-width integers. A \<open>PyrrhicMove\<close> is
  a \<open>uint16_t\<close>; a probe result is an \<open>unsigned\<close>, 32 bits wide. Both are modelled as
  words, so \<open>&\<close>, \<open>|\<close>, \<open>~\<close>, \<open><<\<close> and \<open>>>\<close> are \<open>AND\<close>, \<open>OR\<close>, \<open>NOT\<close>,
  \<open>push_bit\<close> and \<open>drop_bit\<close> (the logical shift: the operands are unsigned). A signed
  \<open>int\<close> argument of a setter reaches the \<open>unsigned\<close> mask as its two's complement
  representation, \<open>word_of_int\<close>.
\<close>

type_synonym u32 = "32 word"
type_synonym PyrrhicMove = "16 word"

subsection \<open>tbprobe.h, lines 36-52: PyrrhicMove\<close>

definition PYRRHIC_FLAG_NONE :: PyrrhicMove where
  "PYRRHIC_FLAG_NONE = 0x0"

definition PYRRHIC_FLAG_QPROMO :: PyrrhicMove where
  "PYRRHIC_FLAG_QPROMO = 0x1"

definition PYRRHIC_FLAG_RPROMO :: PyrrhicMove where
  "PYRRHIC_FLAG_RPROMO = 0x2"

definition PYRRHIC_FLAG_BPROMO :: PyrrhicMove where
  "PYRRHIC_FLAG_BPROMO = 0x3"

definition PYRRHIC_FLAG_NPROMO :: PyrrhicMove where
  "PYRRHIC_FLAG_NPROMO = 0x4"

definition PYRRHIC_FLAG_ENPASS :: PyrrhicMove where
  "PYRRHIC_FLAG_ENPASS = 0x8"

definition PYRRHIC_SHIFT_TO :: nat where
  "PYRRHIC_SHIFT_TO = 0"

definition PYRRHIC_SHIFT_FROM :: nat where
  "PYRRHIC_SHIFT_FROM = 6"

definition PYRRHIC_SHIFT_FLAGS :: nat where
  "PYRRHIC_SHIFT_FLAGS = 12"

definition PYRRHIC_MASK_TO :: PyrrhicMove where
  "PYRRHIC_MASK_TO = 0x3F"

definition PYRRHIC_MASK_FROM :: PyrrhicMove where
  "PYRRHIC_MASK_FROM = 0x3F"

definition PYRRHIC_MASK_FLAGS :: PyrrhicMove where
  "PYRRHIC_MASK_FLAGS = 0x0F"

definition PYRRHIC_MASK_PROMO_FLAGS :: PyrrhicMove where
  "PYRRHIC_MASK_PROMO_FLAGS = 0x07"

definition PYRRHIC_MOVE_FLAGS :: "PyrrhicMove \<Rightarrow> PyrrhicMove" where
  "PYRRHIC_MOVE_FLAGS x = drop_bit PYRRHIC_SHIFT_FLAGS x AND PYRRHIC_MASK_FLAGS"

subsection \<open>api.h, lines 67-74: decoding a PyrrhicMove\<close>

definition PYRRHIC_MOVE_TO :: "PyrrhicMove \<Rightarrow> PyrrhicMove" where
  "PYRRHIC_MOVE_TO x = drop_bit PYRRHIC_SHIFT_TO x AND PYRRHIC_MASK_TO"

definition PYRRHIC_MOVE_FROM :: "PyrrhicMove \<Rightarrow> PyrrhicMove" where
  "PYRRHIC_MOVE_FROM x = drop_bit PYRRHIC_SHIFT_FROM x AND PYRRHIC_MASK_FROM"

definition PYRRHIC_MOVE_IS_ENPASS :: "PyrrhicMove \<Rightarrow> bool" where
  "PYRRHIC_MOVE_IS_ENPASS x = (PYRRHIC_MOVE_FLAGS x = PYRRHIC_FLAG_ENPASS)"

definition PYRRHIC_MOVE_IS_QPROMO :: "PyrrhicMove \<Rightarrow> bool" where
  "PYRRHIC_MOVE_IS_QPROMO x = (PYRRHIC_MOVE_FLAGS x = PYRRHIC_FLAG_QPROMO)"

definition PYRRHIC_MOVE_IS_RPROMO :: "PyrrhicMove \<Rightarrow> bool" where
  "PYRRHIC_MOVE_IS_RPROMO x = (PYRRHIC_MOVE_FLAGS x = PYRRHIC_FLAG_RPROMO)"

definition PYRRHIC_MOVE_IS_BPROMO :: "PyrrhicMove \<Rightarrow> bool" where
  "PYRRHIC_MOVE_IS_BPROMO x = (PYRRHIC_MOVE_FLAGS x = PYRRHIC_FLAG_BPROMO)"

definition PYRRHIC_MOVE_IS_NPROMO :: "PyrrhicMove \<Rightarrow> bool" where
  "PYRRHIC_MOVE_IS_NPROMO x = (PYRRHIC_MOVE_FLAGS x = PYRRHIC_FLAG_NPROMO)"

text \<open>
  Modelled from the spec: the encoder of a move. The headers only decode; the packing
  is done in tbprobe.c, which is not among the sources. The spec's section 8 gives the
  packed value as \<open>(flag << 12) | (origin << 6) | destination\<close>, written here with the
  header's shift constants and truncated to the 16 bits of a \<open>PyrrhicMove\<close>.
\<close>

definition pyrrhic_move_encode :: "PyrrhicMove \<Rightarrow> PyrrhicMove \<Rightarrow> PyrrhicMove \<Rightarrow> PyrrhicMove" where
  "pyrrhic_move_encode origin dest flag =
     push_bit PYRRHIC_SHIFT_FLAGS flag OR push_bit PYRRHIC_SHIFT_FROM origin
       OR push_bit PYRRHIC_SHIFT_TO dest"

subsection \<open>tbprobe.h, lines 61-72: the layout of a probe result\<close>

definition TB_RESULT_WDL_MASK :: u32 where
  "TB_RESULT_WDL_MASK = 0x0000000F"

definition TB_RESULT_TO_MASK :: u32 where
  "TB_RESULT_TO_MASK = 0x000003F0"

definition TB_RESULT_FROM_MASK :: u32 where
  "TB_RESULT_FROM_MASK = 0x0000FC00"

definition TB_RESULT_PROMOTES_MASK :: u32 where
  "TB_RESULT_PROMOTES_MASK = 0x00070000"

definition TB_RESULT_EP_MASK :: u32 where
  "TB_RESULT_EP_MASK = 0x00080000"

definition TB_RESULT_DTZ_MASK :: u32 where
  "TB_RESULT_DTZ_MASK = 0xFFF00000"

definition TB_RESULT_WDL_SHIFT :: nat where
  "TB_RESULT_WDL_SHIFT = 0"

definition TB_RESULT_TO_SHIFT :: nat where
  "TB_RESULT_TO_SHIFT = 4"

definition TB_RESULT_FROM_SHIFT :: nat where
  "TB_RESULT_FROM_SHIFT = 10"

definition TB_RESULT_PROMOTES_SHIFT :: nat where
  "TB_RESULT_PROMOTES_SHIFT = 16"

definition TB_RESULT_EP_SHIFT :: nat where
  "TB_RESULT_EP_SHIFT = 19"

definition TB_RESULT_DTZ_SHIFT :: nat where
  "TB_RESULT_DTZ_SHIFT = 20"

subsection \<open>tbprobe.h, lines 74-85: getters\<close>

definition TB_GET_WDL :: "u32 \<Rightarrow> u32" where
  "TB_GET_WDL res = drop_bit TB_RESULT_WDL_SHIFT (res AND TB_RESULT_WDL_MASK)"

definition TB_GET_TO :: "u32 \<Rightarrow> u32" where
  "TB_GET_TO res = drop_bit TB_RESULT_TO_SHIFT (res AND TB_RESULT_TO_MASK)"

definition TB_GET_FROM :: "u32 \<Rightarrow> u32" where
  "TB_GET_FROM res = drop_bit TB_RESULT_FROM_SHIFT (res AND TB_RESULT_FROM_MASK)"

definition TB_GET_PROMOTES :: "u32 \<Rightarrow> u32" where
  "TB_GET_PROMOTES res = drop_bit TB_RESULT_PROMOTES_SHIFT (res AND TB_RESULT_PROMOTES_MASK)"

definition TB_GET_EP :: "u32 \<Rightarrow> u32" where
  "TB_GET_EP res = drop_bit TB_RESULT_EP_SHIFT (res AND TB_RESULT_EP_MASK)"

definition TB_GET_DTZ :: "u32 \<Rightarrow> u32" where
  "TB_GET_DTZ res = drop_bit TB_RESULT_DTZ_SHIFT (res AND TB_RESULT_DTZ_MASK)"

subsection \<open>tbprobe.h, lines 87-104: setters\<close>

definition TB_SET_WDL :: "u32 \<Rightarrow> u32 \<Rightarrow> u32" where
  "TB_SET_WDL res wdl =
     (res AND NOT TB_RESULT_WDL_MASK) OR
     (push_bit TB_RESULT_WDL_SHIFT wdl AND TB_RESULT_WDL_MASK)"

definition TB_SET_TO :: "u32 \<Rightarrow> u32 \<Rightarrow> u32" where
  "TB_SET_TO res to =
     (res AND NOT TB_RESULT_TO_MASK) OR
     (push_bit TB_RESULT_TO_SHIFT to AND TB_RESULT_TO_MASK)"

definition TB_SET_FROM :: "u32 \<Rightarrow> u32 \<Rightarrow> u32" where
  "TB_SET_FROM res from =
     (res AND NOT TB_RESULT_FROM_MASK) OR
     (push_bit TB_RESULT_FROM_SHIFT from AND TB_RESULT_FROM_MASK)"

definition TB_SET_PROMOTES :: "u32 \<Rightarrow> u32 \<Rightarrow> u32" where
  "TB_SET_PROMOTES res promotes =
     (res AND NOT TB_RESULT_PROMOTES_MASK) OR
     (push_bit TB_RESULT_PROMOTES_SHIFT promotes AND TB_RESULT_PROMOTES_MASK)"

definition TB_SET_EP :: "u32 \<Rightarrow> u32 \<Rightarrow> u32" where
  "TB_SET_EP res ep =
     (res AND NOT TB_RESULT_EP_MASK) OR
     (push_bit TB_RESULT_EP_SHIFT ep AND TB_RESULT_EP_MASK)"

definition TB_SET_DTZ :: "u32 \<Rightarrow> u32 \<Rightarrow> u32" where
  "TB_SET_DTZ res dtz =
     (res AND NOT TB_RESULT_DTZ_MASK) OR
     (push_bit TB_RESULT_DTZ_SHIFT dtz AND TB_RESULT_DTZ_MASK)"

subsection \<open>api.h, lines 39-49: outcomes and sentinels\<close>

definition TB_LOSS :: u32 where
  "TB_LOSS = 0"

definition TB_BLESSED_LOSS :: u32 where
  "TB_BLESSED_LOSS = 1"

definition TB_DRAW :: u32 where
  "TB_DRAW = 2"

definition TB_CURSED_WIN :: u32 where
  "TB_CURSED_WIN = 3"

definition TB_WIN :: u32 where
  "TB_WIN = 4"

definition TB_RESULT_CHECKMATE :: u32 where
  "TB_RESULT_CHECKMATE = TB_SET_WDL 0 TB_WIN"

definition TB_RESULT_STALEMATE :: u32 where
  "TB_RESULT_STALEMATE = TB_SET_WDL 0 TB_DRAW"

definition TB_RESULT_FAILED :: u32 where
  "TB_RESULT_FAILED = 0xFFFFFFFF"

subsection \<open>The six fields of a probe result, by name\<close>

text \<open>
  The header repeats one pattern for six fields. \<open>tb_field\<close> names them, so that a
  statement about "every field X" can be written once; \<open>TB_GET X\<close> and \<open>TB_SET X\<close>
  select the macro of the source for the field \<open>X\<close>. \<open>TB_RESULT_WIDTH\<close> is the number
  of one bits of the field's mask (lemma \<open>tb_mask_as_range\<close> below ties it to the
  mask and shift constants of the header).
\<close>

datatype tb_field = Field_WDL | Field_TO | Field_FROM | Field_PROMOTES | Field_EP | Field_DTZ

definition TB_RESULT_MASK :: "tb_field \<Rightarrow> u32" where
  "TB_RESULT_MASK X = (case X of
     Field_WDL \<Rightarrow> TB_RESULT_WDL_MASK | Field_TO \<Rightarrow> TB_RESULT_TO_MASK
   | Field_FROM \<Rightarrow> TB_RESULT_FROM_MASK | Field_PROMOTES \<Rightarrow> TB_RESULT_PROMOTES_MASK
   | Field_EP \<Rightarrow> TB_RESULT_EP_MASK | Field_DTZ \<Rightarrow> TB_RESULT_DTZ_MASK)"

definition TB_RESULT_SHIFT :: "tb_field \<Rightarrow> nat" where
  "TB_RESULT_SHIFT X = (case X of
     Field_WDL \<Rightarrow> TB_RESULT_WDL_SHIFT | Field_TO \<Rightarrow> TB_RESULT_TO_SHIFT
   | Field_FROM \<Rightarrow> TB_RESULT_FROM_SHIFT | Field_PROMOTES \<Rightarrow> TB_RESULT_PROMOTES_SHIFT
   | Field_EP \<Rightarrow> TB_RESULT_EP_SHIFT | Field_DTZ \<Rightarrow> TB_RESULT_DTZ_SHIFT)"

definition TB_RESULT_WIDTH :: "tb_field \<Rightarrow> nat" where
  "TB_RESULT_WIDTH X = (case X of
     Field_WDL \<Rightarrow> 4 | Field_TO \<Rightarrow> 6 | Field_FROM \<Rightarrow> 6 | Field_PROMOTES \<Rightarrow> 3
   | Field_EP \<Rightarrow> 1 | Field_DTZ \<Rightarrow> 12)"

definition TB_GET :: "tb_field \<Rightarrow> u32 \<Rightarrow> u32" where
  "TB_GET X res = (case X of
     Field_WDL \<Rightarrow> TB_GET_WDL res | Field_TO \<Rightarrow> TB_GET_TO res
   | Field_FROM \<Rightarrow> TB_GET_FROM res | Field_PROMOTES \<Rightarrow> TB_GET_PROMOTES res
   | Field_EP \<Rightarrow> TB_GET_EP res | Field_DTZ \<Rightarrow> TB_GET_DTZ res)"

definition TB_SET :: "tb_field \<Rightarrow> u32 \<Rightarrow> u32 \<Rightarrow> u32" where
  "TB_SET X res v = (case X of
     Field_WDL \<Rightarrow> TB_SET_WDL res v | Field_TO \<Rightarrow> TB_SET_TO res v
   | Field_FROM \<Rightarrow> TB_SET_FROM res v | Field_PROMOTES \<Rightarrow> TB_SET_PROMOTES res v
   | Field_EP \<Rightarrow> TB_SET_EP res v | Field_DTZ \<Rightarrow> TB_SET_DTZ res v)"

text \<open>
  Modelled from the spec: the packing of a tuple of field values into one result. The
  caller that packs (tbprobe.c) is not among the sources; the spec's section 4.2 describes
  packing as the setters applied to a result, so the tuple is packed by the six setters
  of the header applied in turn to 0.
\<close>

definition tb_result_pack :: "u32 \<Rightarrow> u32 \<Rightarrow> u32 \<Rightarrow> u32 \<Rightarrow> u32 \<Rightarrow> u32 \<Rightarrow> u32" where
  "tb_result_pack wdl to from promotes ep dtz =
     TB_SET_DTZ (TB_SET_EP (TB_SET_PROMOTES (TB_SET_FROM (TB_SET_TO (TB_SET_WDL 0 wdl) to)
       from) promotes) ep) dtz"

subsection \<open>api.h, lines 78-126: the probe operations\<close>



text \<open>
  api.h, lines 35 and 78-86: the list a root probe fills. \<open>int32_t tbRank\<close> is kept as
  its 32 bits; the array \<open>moves[TB_MAX_MOVES]\<close> is a list, and the field \<open>size\<close> is
  written \<open>size'\<close>.
\<close>

definition TB_MAX_MOVES :: nat where
  "TB_MAX_MOVES = 256"







section \<open>Evaluation lemmas\<close>

lemmas tb_mask_defs =
  TB_RESULT_WDL_MASK_def TB_RESULT_TO_MASK_def TB_RESULT_FROM_MASK_def
  TB_RESULT_PROMOTES_MASK_def TB_RESULT_EP_MASK_def TB_RESULT_DTZ_MASK_def

lemmas tb_shift_defs =
  TB_RESULT_WDL_SHIFT_def TB_RESULT_TO_SHIFT_def TB_RESULT_FROM_SHIFT_def
  TB_RESULT_PROMOTES_SHIFT_def TB_RESULT_EP_SHIFT_def TB_RESULT_DTZ_SHIFT_def

lemmas tb_get_defs =
  TB_GET_WDL_def TB_GET_TO_def TB_GET_FROM_def TB_GET_PROMOTES_def TB_GET_EP_def
  TB_GET_DTZ_def

lemmas tb_set_defs =
  TB_SET_WDL_def TB_SET_TO_def TB_SET_FROM_def TB_SET_PROMOTES_def TB_SET_EP_def
  TB_SET_DTZ_def

lemmas pyrrhic_flag_defs =
  PYRRHIC_FLAG_NONE_def PYRRHIC_FLAG_QPROMO_def PYRRHIC_FLAG_RPROMO_def
  PYRRHIC_FLAG_BPROMO_def PYRRHIC_FLAG_NPROMO_def PYRRHIC_FLAG_ENPASS_def

lemmas pyrrhic_move_defs =
  PYRRHIC_MOVE_FLAGS_def PYRRHIC_MOVE_TO_def PYRRHIC_MOVE_FROM_def
  PYRRHIC_SHIFT_TO_def PYRRHIC_SHIFT_FROM_def PYRRHIC_SHIFT_FLAGS_def
  PYRRHIC_MASK_TO_def PYRRHIC_MASK_FROM_def PYRRHIC_MASK_FLAGS_def

lemmas pyrrhic_is_defs =
  PYRRHIC_MOVE_IS_ENPASS_def PYRRHIC_MOVE_IS_QPROMO_def PYRRHIC_MOVE_IS_RPROMO_def
  PYRRHIC_MOVE_IS_BPROMO_def PYRRHIC_MOVE_IS_NPROMO_def

lemmas tb_field_defs = TB_RESULT_MASK_def TB_RESULT_SHIFT_def TB_RESULT_WIDTH_def

lemmas tb_eval = tb_get_defs tb_set_defs tb_mask_defs tb_shift_defs mask_numeral

section \<open>One field of a word: clear, shift, mask, merge\<close>

text \<open>
  Every setter is \<open>(res & ~m) | ((v << s) & m)\<close> and every getter \<open>(res & m) >> s\<close>.
  The three facts below are about that shape alone, for a mask \<open>m\<close> of \<open>w\<close> ones
  starting at bit \<open>s\<close>.
\<close>

lemma field_get_set:
  fixes r v :: u32
  assumes "s + w \<le> 32"
  shows "drop_bit s (((r AND NOT (push_bit s (mask w))) OR
           (push_bit s v AND push_bit s (mask w))) AND push_bit s (mask w)) = take_bit w v"
  using assms by (auto simp add: bit_eq_iff bit_simps)

lemma field_frame:
  fixes r x m :: u32
  shows "((r AND NOT m) OR (x AND m)) AND NOT m = r AND NOT m"
  by (auto simp add: bit_eq_iff bit_simps)

lemma field_other:
  fixes r x m m' :: u32
  assumes "m AND m' = 0"
  shows "((r AND NOT m) OR (x AND m)) AND m' = r AND m'"
proof -
  have "\<not> (bit m n \<and> bit m' n)" for n
  proof -
    have "bit (m AND m') n = False"
      using assms by simp
    then show ?thesis
      by (simp add: bit_and_iff)
  qed
  then show ?thesis
    by (auto simp add: bit_eq_iff bit_simps)
qed

lemma unat_take_bit_mod: "unat (take_bit w (v::'a::len word)) = unat v mod 2 ^ w"
proof -
  have "unat (take_bit w v) = take_bit w (unat v)"
    by (rule unsigned_take_bit_eq)
  also have "\<dots> = unat v mod 2 ^ w"
    by (rule take_bit_eq_mod)
  finally show ?thesis .
qed

lemma take_bit_self_unat: "unat v < 2 ^ w \<Longrightarrow> take_bit w (v::'a::len word) = v"
proof -
  assume "unat v < 2 ^ w"
  then have "unat (take_bit w v) = unat v"
    by (simp add: unat_take_bit_mod)
  then show ?thesis
    by (simp add: word_unat_eq_iff)
qed

lemma bit_unat_less:
  fixes x :: "'a::len word"
  assumes "unat x < 2 ^ k" and "bit x n"
  shows "n < k"
proof -
  have "take_bit k x = x"
    using assms(1) by (rule take_bit_self_unat)
  then have "bit (take_bit k x) n"
    using assms(2) by simp
  then show ?thesis
    by (simp add: bit_take_bit_iff)
qed

lemma mod_4096_signed12:
  fixes dtz :: int
  assumes "- 2048 \<le> dtz" "dtz \<le> 2047"
  shows "dtz mod 4096 = (if 0 \<le> dtz then dtz else dtz + 4096)"
proof (cases "0 \<le> dtz")
  case True
  with assms show ?thesis by simp
next
  case False
  have "dtz mod 4096 = (dtz + 4096) mod 4096"
    by simp
  also have "\<dots> = dtz + 4096"
    using assms False by (intro mod_pos_pos_trivial) simp_all
  finally show ?thesis using False by simp
qed

section \<open>The six fields of the header are such fields\<close>

lemma tb_mask_as_range:
  "TB_RESULT_MASK X = push_bit (TB_RESULT_SHIFT X) (mask (TB_RESULT_WIDTH X))"
  by (cases X) (simp_all add: tb_field_defs tb_mask_defs tb_shift_defs mask_numeral)

lemma tb_field_fits: "TB_RESULT_SHIFT X + TB_RESULT_WIDTH X \<le> 32"
  by (cases X) (simp_all add: tb_field_defs tb_shift_defs)

lemma tb_get_unfold: "TB_GET X res = drop_bit (TB_RESULT_SHIFT X) (res AND TB_RESULT_MASK X)"
  by (cases X) (simp_all add: TB_GET_def tb_field_defs tb_get_defs)

lemma tb_set_unfold:
  "TB_SET X res v =
     (res AND NOT (TB_RESULT_MASK X)) OR (push_bit (TB_RESULT_SHIFT X) v AND TB_RESULT_MASK X)"
  by (cases X) (simp_all add: TB_SET_def tb_field_defs tb_set_defs)

lemma tb_masks_disjoint: "X \<noteq> Y \<Longrightarrow> TB_RESULT_MASK X AND TB_RESULT_MASK Y = 0"
  by (cases X; cases Y) (simp_all add: TB_RESULT_MASK_def tb_mask_defs)

lemma tb_mask_bits:
  "bit (TB_RESULT_MASK X) n \<longleftrightarrow>
     TB_RESULT_SHIFT X \<le> n \<and> n < TB_RESULT_SHIFT X + TB_RESULT_WIDTH X"
proof -
  have "n < 32" if "n < TB_RESULT_SHIFT X + TB_RESULT_WIDTH X"
    using that tb_field_fits [of X] by simp
  then show ?thesis
    by (auto simp add: tb_mask_as_range bit_simps)
qed

lemma tb_get_set_same: "TB_GET X (TB_SET X r v) = take_bit (TB_RESULT_WIDTH X) v"
  unfolding tb_get_unfold tb_set_unfold tb_mask_as_range
  by (rule field_get_set) (rule tb_field_fits)

lemma tb_set_outside: "TB_SET X r v AND NOT (TB_RESULT_MASK X) = r AND NOT (TB_RESULT_MASK X)"
  unfolding tb_set_unfold by (rule field_frame)

lemma tb_get_set_other: "Y \<noteq> X \<Longrightarrow> TB_GET Y (TB_SET X r v) = TB_GET Y r"
  unfolding tb_get_unfold tb_set_unfold
  by (simp add: field_other tb_masks_disjoint)

lemma tb_get_bit:
  "bit (TB_GET Y r) k \<longleftrightarrow> k < TB_RESULT_WIDTH Y \<and> bit r (TB_RESULT_SHIFT Y + k)"
  by (auto simp add: tb_get_unfold bit_simps tb_mask_bits dest: bit_imp_le_length)

lemma tb_field_of_bit:
  assumes "n < 32"
  shows "\<exists>Y. bit (TB_RESULT_MASK Y) n"
proof -
  consider "n < 4" | "4 \<le> n \<and> n < 10" | "10 \<le> n \<and> n < 16" | "16 \<le> n \<and> n < 19"
    | "n = 19" | "20 \<le> n \<and> n < 32"
    using assms by linarith
  then show ?thesis
  proof cases
    case 1
    then have "bit (TB_RESULT_MASK Field_WDL) n"
      by (simp add: tb_mask_bits TB_RESULT_SHIFT_def TB_RESULT_WIDTH_def tb_shift_defs)
    then show ?thesis ..
  next
    case 2
    then have "bit (TB_RESULT_MASK Field_TO) n"
      by (simp add: tb_mask_bits TB_RESULT_SHIFT_def TB_RESULT_WIDTH_def tb_shift_defs)
    then show ?thesis ..
  next
    case 3
    then have "bit (TB_RESULT_MASK Field_FROM) n"
      by (simp add: tb_mask_bits TB_RESULT_SHIFT_def TB_RESULT_WIDTH_def tb_shift_defs)
    then show ?thesis ..
  next
    case 4
    then have "bit (TB_RESULT_MASK Field_PROMOTES) n"
      by (simp add: tb_mask_bits TB_RESULT_SHIFT_def TB_RESULT_WIDTH_def tb_shift_defs)
    then show ?thesis ..
  next
    case 5
    then have "bit (TB_RESULT_MASK Field_EP) n"
      by (simp add: tb_mask_bits TB_RESULT_SHIFT_def TB_RESULT_WIDTH_def tb_shift_defs)
    then show ?thesis ..
  next
    case 6
    then have "bit (TB_RESULT_MASK Field_DTZ) n"
      by (simp add: tb_mask_bits TB_RESULT_SHIFT_def TB_RESULT_WIDTH_def tb_shift_defs)
    then show ?thesis ..
  qed
qed

lemma tb_masks_disjoint_bit:
  assumes "bit (TB_RESULT_MASK X) n" and "bit (TB_RESULT_MASK Y) n"
  shows "X = Y"
proof (rule ccontr)
  assume "X \<noteq> Y"
  then have "TB_RESULT_MASK X AND TB_RESULT_MASK Y = 0"
    by (rule tb_masks_disjoint)
  then have "bit (TB_RESULT_MASK X AND TB_RESULT_MASK Y) n = False"
    by simp
  with assms show False
    by (simp add: bit_and_iff)
qed

text \<open>
  Agreeing outside the mask of \<open>X\<close> is the same as agreeing under the getters of the
  other five fields: the six masks cover the word.
\<close>

lemma tb_outside_iff_getters:
  "r' AND NOT (TB_RESULT_MASK X) = r AND NOT (TB_RESULT_MASK X) \<longleftrightarrow>
     (\<forall>Y. Y \<noteq> X \<longrightarrow> TB_GET Y r' = TB_GET Y r)"
proof
  assume same: "r' AND NOT (TB_RESULT_MASK X) = r AND NOT (TB_RESULT_MASK X)"
  show "\<forall>Y. Y \<noteq> X \<longrightarrow> TB_GET Y r' = TB_GET Y r"
  proof (intro allI impI)
    fix Y assume "Y \<noteq> X"
    show "TB_GET Y r' = TB_GET Y r"
    proof (rule bit_eqI)
      fix k
      show "bit (TB_GET Y r') k \<longleftrightarrow> bit (TB_GET Y r) k"
      proof (cases "k < TB_RESULT_WIDTH Y")
        case True
        then have inY: "bit (TB_RESULT_MASK Y) (TB_RESULT_SHIFT Y + k)"
          by (simp add: tb_mask_bits)
        with \<open>Y \<noteq> X\<close> have notX: "\<not> bit (TB_RESULT_MASK X) (TB_RESULT_SHIFT Y + k)"
          using tb_masks_disjoint_bit by blast
        have "bit (r' AND NOT (TB_RESULT_MASK X)) (TB_RESULT_SHIFT Y + k) =
              bit (r AND NOT (TB_RESULT_MASK X)) (TB_RESULT_SHIFT Y + k)"
          by (simp only: same)
        with notX inY have "bit r' (TB_RESULT_SHIFT Y + k) = bit r (TB_RESULT_SHIFT Y + k)"
          by (auto simp add: bit_simps dest: bit_imp_le_length)
        then show ?thesis
          by (simp add: tb_get_bit)
      next
        case False
        then show ?thesis
          by (simp add: tb_get_bit)
      qed
    qed
  qed
next
  assume getters: "\<forall>Y. Y \<noteq> X \<longrightarrow> TB_GET Y r' = TB_GET Y r"
  show "r' AND NOT (TB_RESULT_MASK X) = r AND NOT (TB_RESULT_MASK X)"
  proof (rule bit_eqI)
    fix n
    show "bit (r' AND NOT (TB_RESULT_MASK X)) n \<longleftrightarrow> bit (r AND NOT (TB_RESULT_MASK X)) n"
    proof (cases "n < 32 \<and> \<not> bit (TB_RESULT_MASK X) n")
      case True
      then obtain Y where inY: "bit (TB_RESULT_MASK Y) n"
        using tb_field_of_bit by blast
      with True have "Y \<noteq> X"
        by auto
      with getters have eq: "TB_GET Y r' = TB_GET Y r"
        by simp
      from inY have "TB_RESULT_SHIFT Y \<le> n" and "n - TB_RESULT_SHIFT Y < TB_RESULT_WIDTH Y"
        by (auto simp add: tb_mask_bits)
      then have "bit (TB_GET Y r') (n - TB_RESULT_SHIFT Y) = bit r' n"
        and "bit (TB_GET Y r) (n - TB_RESULT_SHIFT Y) = bit r n"
        by (simp_all add: tb_get_bit)
      with eq have "bit r' n = bit r n"
        by simp
      then show ?thesis
        by (simp add: bit_simps)
    next
      case False
      then show ?thesis
        by (auto simp add: bit_simps dest: bit_imp_le_length)
    qed
  qed
qed

lemma tb_get_set_in_range:
  "unat v < 2 ^ TB_RESULT_WIDTH X \<Longrightarrow> TB_GET X (TB_SET X r v) = v"
  by (simp add: tb_get_set_same take_bit_self_unat)

lemma tb_get_dtz_of_int:
  "uint (TB_GET_DTZ (TB_SET_DTZ r (word_of_int dtz))) = dtz mod 4096"
proof -
  have "TB_GET Field_DTZ (TB_SET Field_DTZ r (word_of_int dtz)) = take_bit 12 (word_of_int dtz)"
    by (simp add: tb_get_set_same TB_RESULT_WIDTH_def)
  then have "uint (TB_GET_DTZ (TB_SET_DTZ r (word_of_int dtz))) =
      take_bit 12 (uint (word_of_int dtz :: u32))"
    by (simp add: TB_GET_def TB_SET_def unsigned_take_bit_eq)
  also have "\<dots> = take_bit 12 dtz"
    by (simp add: uint_word_of_int_eq)
  also have "\<dots> = dtz mod 4096"
    by (simp add: take_bit_eq_mod)
  finally show ?thesis .
qed

lemma tb_get_wdl_set_others:
  "TB_GET_WDL (TB_SET_TO r v) = TB_GET_WDL r"
  "TB_GET_WDL (TB_SET_FROM r v) = TB_GET_WDL r"
  "TB_GET_WDL (TB_SET_PROMOTES r v) = TB_GET_WDL r"
  "TB_GET_WDL (TB_SET_EP r v) = TB_GET_WDL r"
  "TB_GET_WDL (TB_SET_DTZ r v) = TB_GET_WDL r"
  using tb_get_set_other [of Field_WDL Field_TO r v]
    tb_get_set_other [of Field_WDL Field_FROM r v]
    tb_get_set_other [of Field_WDL Field_PROMOTES r v]
    tb_get_set_other [of Field_WDL Field_EP r v]
    tb_get_set_other [of Field_WDL Field_DTZ r v]
  by (simp_all add: TB_GET_def TB_SET_def)

lemma tb_get_wdl_set_wdl: "wdl \<le> 4 \<Longrightarrow> TB_GET_WDL (TB_SET_WDL r wdl) = wdl"
proof -
  assume "wdl \<le> 4"
  then have "unat wdl < 2 ^ TB_RESULT_WIDTH Field_WDL"
    by (simp add: TB_RESULT_WIDTH_def word_le_nat_alt)
  from tb_get_set_in_range [OF this] show ?thesis
    by (simp add: TB_GET_def TB_SET_def)
qed

lemma tb_get_wdl_failed: "TB_GET_WDL TB_RESULT_FAILED = 15"
  by (simp add: TB_RESULT_FAILED_def TB_GET_WDL_def TB_RESULT_WDL_MASK_def
      TB_RESULT_WDL_SHIFT_def)

section \<open>The move codec\<close>

text \<open>
  A move whose three fields fit their widths decodes field by field: the shifted fields
  do not overlap.
\<close>

lemma move_fields:
  fixes origin dest flag :: PyrrhicMove
  assumes o: "unat origin < 2 ^ 6" and d: "unat dest < 2 ^ 6" and f: "unat flag < 2 ^ 4"
  shows "drop_bit 6 (push_bit 12 flag OR push_bit 6 origin OR push_bit 0 dest) AND mask 6 = origin"
    and "drop_bit 0 (push_bit 12 flag OR push_bit 6 origin OR push_bit 0 dest) AND mask 6 = dest"
    and "drop_bit 12 (push_bit 12 flag OR push_bit 6 origin OR push_bit 0 dest) AND mask 4 = flag"
proof -
  note bits = bit_unat_less [OF o] bit_unat_less [OF d] bit_unat_less [OF f]
  show "drop_bit 6 (push_bit 12 flag OR push_bit 6 origin OR push_bit 0 dest) AND mask 6 = origin"
    by (auto simp add: bit_eq_iff bit_simps dest: bits)
  show "drop_bit 0 (push_bit 12 flag OR push_bit 6 origin OR push_bit 0 dest) AND mask 6 = dest"
    by (auto simp add: bit_eq_iff bit_simps dest: bits)
  show "drop_bit 12 (push_bit 12 flag OR push_bit 6 origin OR push_bit 0 dest) AND mask 4 = flag"
    by (auto simp add: bit_eq_iff bit_simps dest: bits)
qed

text \<open>
  Claim C3. For every origin square and destination square in 0-63 and every flag among
  the six flag constants (0, 1, 2, 3, 4, 8), the 16-bit move
  \<open>(flag << 12) | (origin << 6) | destination\<close> decodes to exactly these three values
  under \<open>PYRRHIC_MOVE_FROM\<close>, \<open>PYRRHIC_MOVE_TO\<close> and \<open>PYRRHIC_MOVE_FLAGS\<close>. In
  particular origin 12, destination 28 and the queen-promotion flag pack to
  \<open>(1 << 12) | (12 << 6) | 28\<close>, decode to (12, 28, queen promotion), and
  \<open>PYRRHIC_MOVE_IS_QPROMO\<close> holds of the packed move.
\<close>

theorem pyrrhic_move_roundtrip:
  assumes "origin \<le> 63" and "dest \<le> 63"
    and "flag \<in> {PYRRHIC_FLAG_NONE, PYRRHIC_FLAG_QPROMO, PYRRHIC_FLAG_RPROMO,
                 PYRRHIC_FLAG_BPROMO, PYRRHIC_FLAG_NPROMO, PYRRHIC_FLAG_ENPASS}"
  shows "PYRRHIC_MOVE_FROM (pyrrhic_move_encode origin dest flag) = origin \<and>
         PYRRHIC_MOVE_TO (pyrrhic_move_encode origin dest flag) = dest \<and>
         PYRRHIC_MOVE_FLAGS (pyrrhic_move_encode origin dest flag) = flag \<and>
         pyrrhic_move_encode 12 28 PYRRHIC_FLAG_QPROMO = (push_bit 12 1 OR push_bit 6 12 OR 28) \<and>
         PYRRHIC_MOVE_FROM (pyrrhic_move_encode 12 28 PYRRHIC_FLAG_QPROMO) = 12 \<and>
         PYRRHIC_MOVE_TO (pyrrhic_move_encode 12 28 PYRRHIC_FLAG_QPROMO) = 28 \<and>
         PYRRHIC_MOVE_FLAGS (pyrrhic_move_encode 12 28 PYRRHIC_FLAG_QPROMO) = PYRRHIC_FLAG_QPROMO \<and>
         PYRRHIC_MOVE_IS_QPROMO (pyrrhic_move_encode 12 28 PYRRHIC_FLAG_QPROMO)"
proof -
  have o: "unat origin < 2 ^ 6" and d: "unat dest < 2 ^ 6"
    using assms(1,2) by (simp_all add: word_le_nat_alt)
  have f: "unat flag < 2 ^ 4"
    using assms(3) by (auto simp add: pyrrhic_flag_defs)
  have general:
    "PYRRHIC_MOVE_FROM (pyrrhic_move_encode origin dest flag) = origin \<and>
     PYRRHIC_MOVE_TO (pyrrhic_move_encode origin dest flag) = dest \<and>
     PYRRHIC_MOVE_FLAGS (pyrrhic_move_encode origin dest flag) = flag"
    using move_fields [OF o d f]
    by (simp add: pyrrhic_move_encode_def pyrrhic_move_defs mask_numeral)
  have example:
    "pyrrhic_move_encode 12 28 PYRRHIC_FLAG_QPROMO = (push_bit 12 1 OR push_bit 6 12 OR 28) \<and>
     PYRRHIC_MOVE_FROM (pyrrhic_move_encode 12 28 PYRRHIC_FLAG_QPROMO) = 12 \<and>
     PYRRHIC_MOVE_TO (pyrrhic_move_encode 12 28 PYRRHIC_FLAG_QPROMO) = 28 \<and>
     PYRRHIC_MOVE_FLAGS (pyrrhic_move_encode 12 28 PYRRHIC_FLAG_QPROMO) = PYRRHIC_FLAG_QPROMO \<and>
     PYRRHIC_MOVE_IS_QPROMO (pyrrhic_move_encode 12 28 PYRRHIC_FLAG_QPROMO)"
    by (simp add: pyrrhic_move_encode_def pyrrhic_move_defs pyrrhic_is_defs pyrrhic_flag_defs)
  from general example show ?thesis by blast
qed

theorem pyrrhic_move_roundtrip_witness:
  "(7::PyrrhicMove) \<le> 63 \<and> (63::PyrrhicMove) \<le> 63 \<and>
   PYRRHIC_FLAG_ENPASS \<in> {PYRRHIC_FLAG_NONE, PYRRHIC_FLAG_QPROMO, PYRRHIC_FLAG_RPROMO,
                 PYRRHIC_FLAG_BPROMO, PYRRHIC_FLAG_NPROMO, PYRRHIC_FLAG_ENPASS} \<and>
   PYRRHIC_MOVE_FROM (pyrrhic_move_encode 7 63 PYRRHIC_FLAG_ENPASS) = 7 \<and>
   PYRRHIC_MOVE_TO (pyrrhic_move_encode 7 63 PYRRHIC_FLAG_ENPASS) = 63 \<and>
   PYRRHIC_MOVE_FLAGS (pyrrhic_move_encode 7 63 PYRRHIC_FLAG_ENPASS) = PYRRHIC_FLAG_ENPASS"
  using pyrrhic_move_roundtrip [of 7 63 PYRRHIC_FLAG_ENPASS] by simp

text \<open>
  Claim C7. For every 16-bit move, at most one of the five predicates
  \<open>PYRRHIC_MOVE_IS_ENPASS\<close>, \<open>PYRRHIC_MOVE_IS_QPROMO\<close>, \<open>PYRRHIC_MOVE_IS_RPROMO\<close>,
  \<open>PYRRHIC_MOVE_IS_BPROMO\<close>, \<open>PYRRHIC_MOVE_IS_NPROMO\<close> holds; in particular no move
  is classified both as an en-passant capture and as a promotion.
\<close>

theorem pyrrhic_move_flags_exclusive:
  "length (filter (\<lambda>p. p x)
     [PYRRHIC_MOVE_IS_ENPASS, PYRRHIC_MOVE_IS_QPROMO, PYRRHIC_MOVE_IS_RPROMO,
      PYRRHIC_MOVE_IS_BPROMO, PYRRHIC_MOVE_IS_NPROMO]) \<le> 1 \<and>
   \<not> (PYRRHIC_MOVE_IS_ENPASS x \<and>
      (PYRRHIC_MOVE_IS_QPROMO x \<or> PYRRHIC_MOVE_IS_RPROMO x \<or>
       PYRRHIC_MOVE_IS_BPROMO x \<or> PYRRHIC_MOVE_IS_NPROMO x))"
  by (simp add: pyrrhic_is_defs pyrrhic_flag_defs)

section \<open>The result codec\<close>

text \<open>
  Claim C1, as amended. For every 32-bit result \<open>r\<close> and every valid field value (WDL
  class in 0-4, destination and origin squares in 0-63, promotion class in 0-7,
  en-passant flag in 0-1), the field's setter followed by its getter returns the value
  that was set. For DTZ the getter is the unsigned mask-and-shift of the other fields
  and never sign-extends: for a signed distance \<open>dtz\<close> in -2048..2047, passed as a C
  \<open>int\<close>, it returns \<open>dtz\<close> itself when \<open>dtz\<close> is not negative and \<open>dtz + 4096\<close> when
  it is.
\<close>

theorem tb_set_get_roundtrip:
  assumes "wdl \<le> 4" and "to \<le> 63" and "from \<le> 63" and "promotes \<le> 7" and "ep \<le> 1"
    and "- 2048 \<le> dtz" and "dtz \<le> 2047"
  shows "TB_GET_WDL (TB_SET_WDL r wdl) = wdl \<and>
         TB_GET_TO (TB_SET_TO r to) = to \<and>
         TB_GET_FROM (TB_SET_FROM r from) = from \<and>
         TB_GET_PROMOTES (TB_SET_PROMOTES r promotes) = promotes \<and>
         TB_GET_EP (TB_SET_EP r ep) = ep \<and>
         uint (TB_GET_DTZ (TB_SET_DTZ r (word_of_int dtz))) =
           (if 0 \<le> dtz then dtz else dtz + 4096)"
proof -
  have "unat wdl < 2 ^ TB_RESULT_WIDTH Field_WDL"
    using assms(1) by (simp add: TB_RESULT_WIDTH_def word_le_nat_alt)
  from tb_get_set_in_range [OF this] have 1: "TB_GET_WDL (TB_SET_WDL r wdl) = wdl"
    by (simp add: TB_GET_def TB_SET_def)
  have "unat to < 2 ^ TB_RESULT_WIDTH Field_TO"
    using assms(2) by (simp add: TB_RESULT_WIDTH_def word_le_nat_alt)
  from tb_get_set_in_range [OF this] have 2: "TB_GET_TO (TB_SET_TO r to) = to"
    by (simp add: TB_GET_def TB_SET_def)
  have "unat from < 2 ^ TB_RESULT_WIDTH Field_FROM"
    using assms(3) by (simp add: TB_RESULT_WIDTH_def word_le_nat_alt)
  from tb_get_set_in_range [OF this] have 3: "TB_GET_FROM (TB_SET_FROM r from) = from"
    by (simp add: TB_GET_def TB_SET_def)
  have "unat promotes < 2 ^ TB_RESULT_WIDTH Field_PROMOTES"
    using assms(4) by (simp add: TB_RESULT_WIDTH_def word_le_nat_alt)
  from tb_get_set_in_range [OF this]
  have 4: "TB_GET_PROMOTES (TB_SET_PROMOTES r promotes) = promotes"
    by (simp add: TB_GET_def TB_SET_def)
  have "unat ep < 2 ^ TB_RESULT_WIDTH Field_EP"
    using assms(5) by (simp add: TB_RESULT_WIDTH_def word_le_nat_alt)
  from tb_get_set_in_range [OF this] have 5: "TB_GET_EP (TB_SET_EP r ep) = ep"
    by (simp add: TB_GET_def TB_SET_def)
  have 6: "uint (TB_GET_DTZ (TB_SET_DTZ r (word_of_int dtz))) =
      (if 0 \<le> dtz then dtz else dtz + 4096)"
    using mod_4096_signed12 [OF assms(6,7)] by (simp only: tb_get_dtz_of_int)
  from 1 2 3 4 5 6 show ?thesis by blast
qed

theorem tb_set_get_roundtrip_witness:
  "(4::u32) \<le> 4 \<and> (28::u32) \<le> 63 \<and> (12::u32) \<le> 63 \<and> (5::u32) \<le> 7 \<and> (1::u32) \<le> 1 \<and>
   - 2048 \<le> (- 5 :: int) \<and> (- 5 :: int) \<le> 2047 \<and>
   TB_GET_WDL (TB_SET_WDL 0xFFFFFFFF 4) = 4 \<and>
   TB_GET_TO (TB_SET_TO 0xFFFFFFFF 28) = 28 \<and>
   TB_GET_FROM (TB_SET_FROM 0xFFFFFFFF 12) = 12 \<and>
   TB_GET_PROMOTES (TB_SET_PROMOTES 0xFFFFFFFF 5) = 5 \<and>
   TB_GET_EP (TB_SET_EP 0xFFFFFFFF 1) = 1 \<and>
   uint (TB_GET_DTZ (TB_SET_DTZ 0xFFFFFFFF (word_of_int (- 5)))) = 4091"
  using tb_set_get_roundtrip [of 4 28 12 5 1 "- 5" "0xFFFFFFFF"] by simp

text \<open>
  The claim as stated fails for a negative distance: -1 is in -2048..2047, and setting
  it in the empty result and reading it back gives 4095, as an unsigned and as a signed
  reading of the getter's value.
\<close>

theorem tb_set_get_dtz_negative_counterexample:
  "- 2048 \<le> (- 1 :: int) \<and> (- 1 :: int) \<le> 2047 \<and>
   TB_GET_DTZ (TB_SET_DTZ 0 (word_of_int (- 1))) = 4095 \<and>
   sint (TB_GET_DTZ (TB_SET_DTZ 0 (word_of_int (- 1)))) = 4095 \<and>
   TB_GET_DTZ (TB_SET_DTZ 0 (word_of_int (- 1))) \<noteq> word_of_int (- 1)"
  by (simp add: TB_GET_DTZ_def TB_SET_DTZ_def TB_RESULT_DTZ_MASK_def TB_RESULT_DTZ_SHIFT_def
      mask_numeral)

text \<open>
  Claim C2. For every 32-bit result \<open>r\<close>, every field \<open>X\<close> and every 32-bit input \<open>v\<close>,
  in range or not, \<open>TB_SET_X(r, v)\<close> agrees with \<open>r\<close> on every bit outside the mask of
  \<open>X\<close>, and the getter of every other field \<open>Y\<close> returns on it what it returned on \<open>r\<close>.
  The two say the same: a result \<open>r'\<close> agrees with \<open>r\<close> outside the mask of \<open>X\<close> exactly
  when the other five getters agree on \<open>r'\<close> and \<open>r\<close>.
\<close>

theorem tb_set_frame:
  "TB_SET X r v AND NOT (TB_RESULT_MASK X) = r AND NOT (TB_RESULT_MASK X) \<and>
   (\<forall>Y. Y \<noteq> X \<longrightarrow> TB_GET Y (TB_SET X r v) = TB_GET Y r) \<and>
   ((r' AND NOT (TB_RESULT_MASK X) = r AND NOT (TB_RESULT_MASK X)) =
      (\<forall>Y. Y \<noteq> X \<longrightarrow> TB_GET Y r' = TB_GET Y r))"
proof (intro conjI)
  show "TB_SET X r v AND NOT (TB_RESULT_MASK X) = r AND NOT (TB_RESULT_MASK X)"
    by (rule tb_set_outside)
  show "\<forall>Y. Y \<noteq> X \<longrightarrow> TB_GET Y (TB_SET X r v) = TB_GET Y r"
    by (simp add: tb_get_set_other)
  show "(r' AND NOT (TB_RESULT_MASK X) = r AND NOT (TB_RESULT_MASK X)) =
      (\<forall>Y. Y \<noteq> X \<longrightarrow> TB_GET Y r' = TB_GET Y r)"
    by (rule tb_outside_iff_getters)
qed

theorem tb_set_frame_witness:
  "Field_WDL \<noteq> Field_TO \<and> Field_DTZ \<noteq> Field_TO \<and>
   TB_SET Field_TO 0x011031C4 0xFFFFFFFF AND NOT (TB_RESULT_MASK Field_TO) =
     0x011031C4 AND NOT (TB_RESULT_MASK Field_TO) \<and>
   TB_GET Field_WDL (TB_SET Field_TO 0x011031C4 0xFFFFFFFF) = TB_GET Field_WDL 0x011031C4 \<and>
   TB_GET Field_DTZ (TB_SET Field_TO 0x011031C4 0xFFFFFFFF) = TB_GET Field_DTZ 0x011031C4"
  using tb_set_frame [of Field_TO "0x011031C4" "0xFFFFFFFF"] by simp

text \<open>
  Claim C4. The six fields are packed contiguously from the least significant bit
  upward: WDL in bits 0-3, destination square in bits 4-9, origin square in bits 10-15,
  promotion class in bits 16-18, en-passant flag in bit 19, DTZ in bits 20-31; each
  shift constant is the lowest bit of its field; the six masks are pairwise disjoint and
  together cover all 32 bits.
\<close>

theorem tb_result_layout:
  "(\<forall>n. bit TB_RESULT_WDL_MASK n = (n \<le> 3)) \<and>
   (\<forall>n. bit TB_RESULT_TO_MASK n = (4 \<le> n \<and> n \<le> 9)) \<and>
   (\<forall>n. bit TB_RESULT_FROM_MASK n = (10 \<le> n \<and> n \<le> 15)) \<and>
   (\<forall>n. bit TB_RESULT_PROMOTES_MASK n = (16 \<le> n \<and> n \<le> 18)) \<and>
   (\<forall>n. bit TB_RESULT_EP_MASK n = (n = 19)) \<and>
   (\<forall>n. bit TB_RESULT_DTZ_MASK n = (20 \<le> n \<and> n \<le> 31)) \<and>
   TB_RESULT_WDL_SHIFT = 0 \<and> TB_RESULT_TO_SHIFT = 4 \<and> TB_RESULT_FROM_SHIFT = 10 \<and>
   TB_RESULT_PROMOTES_SHIFT = 16 \<and> TB_RESULT_EP_SHIFT = 19 \<and> TB_RESULT_DTZ_SHIFT = 20 \<and>
   TB_RESULT_WDL_MASK AND TB_RESULT_TO_MASK = 0 \<and>
   TB_RESULT_WDL_MASK AND TB_RESULT_FROM_MASK = 0 \<and>
   TB_RESULT_WDL_MASK AND TB_RESULT_PROMOTES_MASK = 0 \<and>
   TB_RESULT_WDL_MASK AND TB_RESULT_EP_MASK = 0 \<and>
   TB_RESULT_WDL_MASK AND TB_RESULT_DTZ_MASK = 0 \<and>
   TB_RESULT_TO_MASK AND TB_RESULT_FROM_MASK = 0 \<and>
   TB_RESULT_TO_MASK AND TB_RESULT_PROMOTES_MASK = 0 \<and>
   TB_RESULT_TO_MASK AND TB_RESULT_EP_MASK = 0 \<and>
   TB_RESULT_TO_MASK AND TB_RESULT_DTZ_MASK = 0 \<and>
   TB_RESULT_FROM_MASK AND TB_RESULT_PROMOTES_MASK = 0 \<and>
   TB_RESULT_FROM_MASK AND TB_RESULT_EP_MASK = 0 \<and>
   TB_RESULT_FROM_MASK AND TB_RESULT_DTZ_MASK = 0 \<and>
   TB_RESULT_PROMOTES_MASK AND TB_RESULT_EP_MASK = 0 \<and>
   TB_RESULT_PROMOTES_MASK AND TB_RESULT_DTZ_MASK = 0 \<and>
   TB_RESULT_EP_MASK AND TB_RESULT_DTZ_MASK = 0 \<and>
   TB_RESULT_WDL_MASK OR TB_RESULT_TO_MASK OR TB_RESULT_FROM_MASK OR
     TB_RESULT_PROMOTES_MASK OR TB_RESULT_EP_MASK OR TB_RESULT_DTZ_MASK = 0xFFFFFFFF"
proof -
  have wdl: "bit TB_RESULT_WDL_MASK n = (n \<le> 3)" for n
    using tb_mask_bits [of Field_WDL n] by (auto simp add: tb_field_defs tb_shift_defs)
  have to: "bit TB_RESULT_TO_MASK n = (4 \<le> n \<and> n \<le> 9)" for n
    using tb_mask_bits [of Field_TO n] by (auto simp add: tb_field_defs tb_shift_defs)
  have "from": "bit TB_RESULT_FROM_MASK n = (10 \<le> n \<and> n \<le> 15)" for n
    using tb_mask_bits [of Field_FROM n] by (auto simp add: tb_field_defs tb_shift_defs)
  have promotes: "bit TB_RESULT_PROMOTES_MASK n = (16 \<le> n \<and> n \<le> 18)" for n
    using tb_mask_bits [of Field_PROMOTES n] by (auto simp add: tb_field_defs tb_shift_defs)
  have ep: "bit TB_RESULT_EP_MASK n = (n = 19)" for n
    using tb_mask_bits [of Field_EP n] by (auto simp add: tb_field_defs tb_shift_defs)
  have dtz: "bit TB_RESULT_DTZ_MASK n = (20 \<le> n \<and> n \<le> 31)" for n
    using tb_mask_bits [of Field_DTZ n] by (auto simp add: tb_field_defs tb_shift_defs)
  have shifts: "TB_RESULT_WDL_SHIFT = 0 \<and> TB_RESULT_TO_SHIFT = 4 \<and> TB_RESULT_FROM_SHIFT = 10 \<and>
      TB_RESULT_PROMOTES_SHIFT = 16 \<and> TB_RESULT_EP_SHIFT = 19 \<and> TB_RESULT_DTZ_SHIFT = 20"
    by (simp add: tb_shift_defs)
  have disjoint: "TB_RESULT_MASK X AND TB_RESULT_MASK Y = 0" if "X \<noteq> Y" for X Y
    using that by (rule tb_masks_disjoint)
  have cover: "TB_RESULT_WDL_MASK OR TB_RESULT_TO_MASK OR TB_RESULT_FROM_MASK OR
     TB_RESULT_PROMOTES_MASK OR TB_RESULT_EP_MASK OR TB_RESULT_DTZ_MASK = 0xFFFFFFFF"
    by (simp add: tb_mask_defs)
  show ?thesis
    using wdl to "from" promotes ep dtz shifts cover
      disjoint [of Field_WDL Field_TO] disjoint [of Field_WDL Field_FROM]
      disjoint [of Field_WDL Field_PROMOTES] disjoint [of Field_WDL Field_EP]
      disjoint [of Field_WDL Field_DTZ] disjoint [of Field_TO Field_FROM]
      disjoint [of Field_TO Field_PROMOTES] disjoint [of Field_TO Field_EP]
      disjoint [of Field_TO Field_DTZ] disjoint [of Field_FROM Field_PROMOTES]
      disjoint [of Field_FROM Field_EP] disjoint [of Field_FROM Field_DTZ]
      disjoint [of Field_PROMOTES Field_EP] disjoint [of Field_PROMOTES Field_DTZ]
      disjoint [of Field_EP Field_DTZ]
    by (simp add: TB_RESULT_MASK_def)
qed

text \<open>
  Claim C5. The result with WDL = Win (4), to = 28, from = 12, promotes = 0, ep = 0 and
  dtz = 17 packs to the literal \<open>4 | (28 << 4) | (12 << 10) | (17 << 20)\<close>, which is
  0x011031C4, and the six getters read 4, 28, 12, 0, 0 and 17 from that literal.
\<close>

theorem tb_result_example:
  "tb_result_pack 4 28 12 0 0 17 = 0x011031C4 \<and>
   (4 OR push_bit 4 28 OR push_bit 10 12 OR push_bit 20 17 :: u32) = 0x011031C4 \<and>
   TB_GET_WDL 0x011031C4 = 4 \<and> TB_WIN = 4 \<and>
   TB_GET_TO 0x011031C4 = 28 \<and>
   TB_GET_FROM 0x011031C4 = 12 \<and>
   TB_GET_PROMOTES 0x011031C4 = 0 \<and>
   TB_GET_EP 0x011031C4 = 0 \<and>
   TB_GET_DTZ 0x011031C4 = 17"
  by (simp add: tb_result_pack_def TB_WIN_def tb_eval)

text \<open>
  Claim C6. \<open>TB_RESULT_FAILED\<close> is the all-ones 32-bit value 0xFFFFFFFF; the checkmate
  sentinel decodes to WDL = Win (4) and DTZ = 0, the stalemate sentinel to WDL = Draw (2)
  and DTZ = 0; the three sentinels are pairwise distinct.
\<close>

theorem tb_result_sentinels:
  "TB_RESULT_FAILED = 0xFFFFFFFF \<and> TB_RESULT_FAILED = NOT 0 \<and>
   TB_GET_WDL TB_RESULT_CHECKMATE = TB_WIN \<and> TB_WIN = 4 \<and>
   TB_GET_DTZ TB_RESULT_CHECKMATE = 0 \<and>
   TB_GET_WDL TB_RESULT_STALEMATE = TB_DRAW \<and> TB_DRAW = 2 \<and>
   TB_GET_DTZ TB_RESULT_STALEMATE = 0 \<and>
   TB_RESULT_FAILED \<noteq> TB_RESULT_CHECKMATE \<and>
   TB_RESULT_FAILED \<noteq> TB_RESULT_STALEMATE \<and>
   TB_RESULT_CHECKMATE \<noteq> TB_RESULT_STALEMATE"
  by (simp add: TB_RESULT_FAILED_def TB_RESULT_CHECKMATE_def TB_RESULT_STALEMATE_def
      TB_WIN_def TB_DRAW_def tb_eval)

text \<open>
  Claim C10. A setter truncates its input to the width of its field and rejects nothing:
  for every 32-bit result \<open>r\<close>, every field \<open>X\<close> of width \<open>w\<close> and every 32-bit input
  \<open>v\<close>, \<open>TB_GET_X(TB_SET_X(r, v))\<close> is \<open>v mod 2^w\<close>, and the bits of \<open>r\<close> outside the
  field of \<open>X\<close> are unchanged.
\<close>

theorem tb_set_truncates:
  "unat (TB_GET X (TB_SET X r v)) = unat v mod 2 ^ TB_RESULT_WIDTH X \<and>
   TB_SET X r v AND NOT (TB_RESULT_MASK X) = r AND NOT (TB_RESULT_MASK X)"
  by (simp add: tb_get_set_same tb_set_outside unat_take_bit_mod)

text \<open>
  Claim C9. For every tuple of in-range field values with the WDL class in 0-4 (squares
  in 0-63, promotion class in 0-7, en-passant flag in 0-1, DTZ field in 0-4095), the
  packed result differs from \<open>TB_RESULT_FAILED\<close>: its WDL field reads back as the
  class that was packed, while the WDL field of the failure sentinel is 15, above
  \<open>TB_WIN\<close>.
\<close>

theorem tb_result_pack_not_failed:
  assumes "wdl \<le> 4" and "to \<le> 63" and "from \<le> 63" and "promotes \<le> 7" and "ep \<le> 1"
    and "dtz \<le> 4095"
  shows "tb_result_pack wdl to from promotes ep dtz \<noteq> TB_RESULT_FAILED \<and>
         TB_GET_WDL (tb_result_pack wdl to from promotes ep dtz) = wdl \<and>
         TB_GET_WDL TB_RESULT_FAILED = 15 \<and> TB_WIN < TB_GET_WDL TB_RESULT_FAILED"
proof -
  have wdl: "TB_GET_WDL (tb_result_pack wdl to from promotes ep dtz) = wdl"
    using assms(1) by (simp add: tb_result_pack_def tb_get_wdl_set_others tb_get_wdl_set_wdl)
  have "wdl \<noteq> 15"
    using assms(1) by auto
  with wdl have "TB_GET_WDL (tb_result_pack wdl to from promotes ep dtz) \<noteq>
      TB_GET_WDL TB_RESULT_FAILED"
    by (simp add: tb_get_wdl_failed)
  then have "tb_result_pack wdl to from promotes ep dtz \<noteq> TB_RESULT_FAILED"
    by auto
  with wdl show ?thesis
    by (simp add: tb_get_wdl_failed TB_WIN_def)
qed

theorem tb_result_pack_not_failed_witness:
  "(4::u32) \<le> 4 \<and> (63::u32) \<le> 63 \<and> (63::u32) \<le> 63 \<and> (7::u32) \<le> 7 \<and> (1::u32) \<le> 1 \<and>
   (4095::u32) \<le> 4095 \<and>
   tb_result_pack 4 63 63 7 1 4095 \<noteq> TB_RESULT_FAILED \<and>
   TB_GET_WDL (tb_result_pack 4 63 63 7 1 4095) = 4"
  using tb_result_pack_not_failed [of 4 63 63 7 1 4095] by simp

section \<open>The probe operations\<close>



end
